theory Spec2Isabelle
  imports Main "HOL-Library.AList" "HOL-Library.Sublist" "HOL-Library.Char_ord"
    "HOL-Library.List_Lexorder" "HOL-Library.Multiset"
begin

section \<open>The chunked extraction scripts\<close>

text \<open>
  The repository holds three scripts with one driver skeleton each:
  \<^item> \<^verbatim>\<open>extract_script.py\<close> (text mode): per-chunk text, joined into one text file per act;
  \<^item> \<^verbatim>\<open>test.py\<close> (per-clause mode): per-chunk JSON objects with \<^verbatim>\<open>act_name\<close>,
    \<^verbatim>\<open>act_number\<close> and \<^verbatim>\<open>clauses\<close>, merged into one object per act;
  \<^item> \<^verbatim>\<open>test_v1.py\<close> (grouped mode): per-chunk JSON arrays, concatenated into one array.

  Strings are \<open>char list\<close>s, compared as Python compares \<^verbatim>\<open>str\<close> (lexicographically by
  character code, a proper prefix first). Paths are POSIX paths.
\<close>

subsection \<open>Paths and names\<close>

text \<open>\<^verbatim>\<open>os.path.join(a, b)\<close> of \<^verbatim>\<open>posixpath\<close>; the three-argument calls of the
  scripts are two nested joins.\<close>

definition os_path_join :: "string \<Rightarrow> string \<Rightarrow> string" where
  "os_path_join a b =
     (if prefix ''/'' b then b
      else if a = [] \<or> suffix ''/'' a then a @ b
      else a @ ''/'' @ b)"

text \<open>\<^verbatim>\<open>os.path.basename(p)\<close>: what follows the last slash.\<close>

definition os_path_basename :: "string \<Rightarrow> string" where
  "os_path_basename p = rev (takeWhile (\<lambda>c. c \<noteq> CHR ''/'') (rev p))"

text \<open>\<^verbatim>\<open>name.rfind('.')\<close>: the index of the last dot, \<open>None\<close> for Python's \<open>-1\<close>.\<close>

definition rfind_dot :: "string \<Rightarrow> nat option" where
  "rfind_dot name =
     (if CHR ''.'' \<in> set name
      then Some (length name - 1 - length (takeWhile (\<lambda>c. c \<noteq> CHR ''.'') (rev name)))
      else None)"

text \<open>\<^verbatim>\<open>pathlib.Path(name).stem\<close> for a name without a slash: the name up to its last
  dot, unless that dot is the first or the last character.\<close>

definition stem :: "string \<Rightarrow> string" where
  "stem name =
     (case rfind_dot name of
        None \<Rightarrow> name
      | Some i \<Rightarrow> if 0 < i \<and> i < length name - 1 then take i name else name)"

text \<open>\<^verbatim>\<open>str.lower()\<close> on the ASCII letters, which is all that
  \<^verbatim>\<open>f.lower().endswith('.pdf')\<close> can see.\<close>

definition lower_char :: "char \<Rightarrow> char" where
  "lower_char c =
     (if CHR ''A'' \<le> c \<and> c \<le> CHR ''Z'' then char_of (of_char c + (32::nat)) else c)"

definition lower :: "string \<Rightarrow> string" where
  "lower s = map lower_char s"

definition is_pdf :: "string \<Rightarrow> bool" where
  "is_pdf filename = suffix ''.pdf'' (lower filename)"

text \<open>\<^verbatim>\<open>needle in hay\<close> on strings.\<close>

fun contains :: "string \<Rightarrow> string \<Rightarrow> bool" where
  "contains needle [] = (needle = [])"
| "contains needle (c # cs) = (prefix needle (c # cs) \<or> contains needle cs)"

text \<open>\<^verbatim>\<open>sep.join(parts)\<close>.\<close>

fun join :: "string \<Rightarrow> string list \<Rightarrow> string" where
  "join sep [] = []"
| "join sep [x] = x"
| "join sep (x # y # ys) = x @ sep @ join sep (y # ys)"

subsection \<open>JSON values as Python sees them\<close>

text \<open>What \<^verbatim>\<open>json.load\<close> returns. An object is its key-value pairs in insertion order.
  A number keeps an integer payload: the scripts only test numbers for truth and try to
  iterate them.\<close>

datatype json =
    JNull
  | JBool bool
  | JNum int
  | JStr string
  | JArr "json list"
  | JObj "(string \<times> json) list"

text \<open>The exceptions that no handler of the scripts catches.\<close>

datatype py_error = AttributeError | TypeError

text \<open>\<^verbatim>\<open>d.get(k)\<close>: \<^verbatim>\<open>None\<close> for a missing key.\<close>

definition py_get :: "(string \<times> json) list \<Rightarrow> string \<Rightarrow> json" where
  "py_get d k = (case map_of d k of None \<Rightarrow> JNull | Some v \<Rightarrow> v)"

text \<open>Truth value of a Python object in an \<^verbatim>\<open>if\<close>.\<close>

fun truthy :: "json \<Rightarrow> bool" where
  "truthy JNull = False"
| "truthy (JBool b) = b"
| "truthy (JNum n) = (n \<noteq> 0)"
| "truthy (JStr s) = (s \<noteq> [])"
| "truthy (JArr xs) = (xs \<noteq> [])"
| "truthy (JObj kvs) = (kvs \<noteq> [])"

text \<open>What \<^verbatim>\<open>list.extend(v)\<close> appends: the items of a list, the characters of a string,
  the keys of a dict; \<^verbatim>\<open>TypeError\<close> (here \<open>None\<close>) for anything else.\<close>

fun py_iter :: "json \<Rightarrow> json list option" where
  "py_iter (JArr xs) = Some xs"
| "py_iter (JStr s) = Some (map (\<lambda>c. JStr [c]) s)"
| "py_iter (JObj kvs) = Some (map (\<lambda>kv. JStr (fst kv)) kvs)"
| "py_iter JNull = None"
| "py_iter (JBool b) = None"
| "py_iter (JNum n) = None"

text \<open>A JSON file on disk, seen through \<^verbatim>\<open>json.load\<close>: \<open>Holds v\<close> when its text decodes
  to \<open>v\<close> (as the text written by \<^verbatim>\<open>json.dump(v, f)\<close> does), \<open>Undecodable\<close> when
  \<^verbatim>\<open>json.load\<close> raises \<^verbatim>\<open>JSONDecodeError\<close>.\<close>

datatype json_file = Undecodable | Holds json

subsection \<open>Files, effects and the remote service\<close>

text \<open>What a run does besides computing: remote calls, file writes, pauses, and the
  reports it prints about chunks and acts (banners and progress lines are left out).\<close>

datatype event =
    Remote_call string
  | Checkpoint_write string
  | Final_write string
  | Sleep nat
  | Chunk_skipped string
  | Attempt_error nat string
  | Chunk_failed string
  | Act_skipped string
  | No_chunks string
  | Decode_warning string

text \<open>The regular files the scripts write and read back, by path, and the trace of
  effects so far.\<close>

record 'c state =
  files :: "(string \<times> 'c) list"
  trace :: "event list"

definition emit :: "event list \<Rightarrow> 'c state \<Rightarrow> 'c state" where
  "emit es s = s\<lparr>trace := trace s @ es\<rparr>"

text \<open>\<^verbatim>\<open>os.path.exists(p)\<close>.\<close>

definition path_exists :: "string \<Rightarrow> 'c state \<Rightarrow> bool" where
  "path_exists p s = (map_of (files s) p \<noteq> None)"

text \<open>\<^verbatim>\<open>os.listdir(d)\<close>, for a directory \<open>d\<close> of regular files: the names of the files
  directly below \<open>d\<close>, in the order of the store.\<close>

definition listdir :: "string \<Rightarrow> 'c state \<Rightarrow> string list" where
  "listdir d s =
     map (drop (length d + 1))
       (filter (\<lambda>p. prefix (d @ ''/'') p \<and> CHR ''/'' \<notin> set (drop (length d + 1) p))
          (map fst (files s)))"

text \<open>The outcome of one remote call: it raises (\<open>Raised (str e)\<close>) or returns a payload.
  The service is an oracle asked with the number of remote calls made so far and the chunk
  path, so that every sequence of answers is covered.\<close>

datatype 'p outcome = Raised string | Returned 'p

type_synonym 'p extractor = "nat \<Rightarrow> string \<Rightarrow> 'p outcome"

text \<open>The chunk paths of the remote calls of a trace, in order.\<close>

fun calls_of :: "event list \<Rightarrow> string list" where
  "calls_of [] = []"
| "calls_of (Remote_call p # tr) = p # calls_of tr"
| "calls_of (e # tr) = calls_of tr"

definition calls_made :: "event list \<Rightarrow> nat" where
  "calls_made tr = length (calls_of tr)"

subsection \<open>The chunk loop\<close>

definition MAX_RETRIES :: nat where
  "MAX_RETRIES = 3"

definition RETRY_DELAY_SECONDS :: nat where
  "RETRY_DELAY_SECONDS = 70"

text \<open>Where the chunk loop differs between the three scripts:
  \<^item> \<open>chunk_suffix\<close>: the extension of a checkpoint file;
  \<^item> \<open>save\<close>: the \<^verbatim>\<open>with open(temp, "w")\<close> block. \<open>Inr c\<close>: the file holds \<open>c\<close>.
    \<open>Inl (e, c)\<close>: the block raised \<open>e\<close> after \<^verbatim>\<open>open\<close> had created the file, which
    is left holding \<open>c\<close>;
  \<^item> \<open>cooldown\<close>: the seconds slept in the \<^verbatim>\<open>except\<close> branch, given \<^verbatim>\<open>str(e)\<close>;
  \<^item> \<open>proactive_delay\<close>: \<^verbatim>\<open>PROACTIVE_DELAY_SECONDS\<close>.\<close>

record ('p, 'c) script =
  chunk_suffix :: string
  save :: "'p \<Rightarrow> (string \<times> 'c) + 'c"
  cooldown :: "string \<Rightarrow> nat"
  proactive_delay :: nat

text \<open>\<^verbatim>\<open>extract_script.py\<close>: \<^verbatim>\<open>response.text\<close> is a string or \<^verbatim>\<open>None\<close>;
  \<^verbatim>\<open>f.write(None)\<close> raises after the file was created empty. Every exception is followed
  by \<^verbatim>\<open>time.sleep(10)\<close>.\<close>

definition text_script :: "(string option, string) script" where
  "text_script =
     \<lparr>chunk_suffix = ''.txt'',
      save = (\<lambda>clean_text. case clean_text of
                Some t \<Rightarrow> Inr t
              | None \<Rightarrow> Inl (''write() argument must be str, not None'', [])),
      cooldown = (\<lambda>e. 10),
      proactive_delay = 65\<rparr>"

text \<open>\<^verbatim>\<open>test.py\<close> and \<^verbatim>\<open>test_v1.py\<close>: the payload comes from \<^verbatim>\<open>json.loads\<close>, so
  \<^verbatim>\<open>json.dump\<close> writes it; an exception whose text has \<^verbatim>\<open>429\<close> or
  \<^verbatim>\<open>ResourceExhausted\<close> in it is followed by \<^verbatim>\<open>RETRY_DELAY_SECONDS\<close>, any other by 10.\<close>

definition rate_limited :: "string \<Rightarrow> bool" where
  "rate_limited e = (contains ''429'' e \<or> contains ''ResourceExhausted'' e)"

definition json_script :: "(json, json_file) script" where
  "json_script =
     \<lparr>chunk_suffix = ''.json'',
      save = (\<lambda>structured_data. Inr (Holds structured_data)),
      cooldown = (\<lambda>e. if rate_limited e then RETRY_DELAY_SECONDS else 10),
      proactive_delay = 5\<rparr>"

text \<open>Opening \<open>p\<close> for writing and leaving \<open>c\<close> in it.\<close>

definition write_checkpoint :: "string \<Rightarrow> 'c \<Rightarrow> 'c state \<Rightarrow> 'c state" where
  "write_checkpoint p c s =
     s\<lparr>files := AList.update p c (files s), trace := trace s @ [Checkpoint_write p]\<rparr>"

text \<open>The checkpoint path of a chunk: \<^verbatim>\<open>temp_act_chunk_path/<stem of the basename><suffix>\<close>.\<close>

definition chunk_temp_path :: "('p, 'c) script \<Rightarrow> string \<Rightarrow> string \<Rightarrow> string" where
  "chunk_temp_path sc temp_act_chunk_path chunk_path =
     os_path_join temp_act_chunk_path
       (stem (os_path_basename chunk_path) @ chunk_suffix sc)"

text \<open>\<^verbatim>\<open>for attempt in range(MAX_RETRIES): try ... break / except ... / else ...\<close>, over the
  attempt numbers still to come.\<close>

fun retry_loop ::
  "('p, 'c) script \<Rightarrow> 'p extractor \<Rightarrow> string \<Rightarrow> string \<Rightarrow> nat list \<Rightarrow> 'c state \<Rightarrow> 'c state"
where
  "retry_loop sc extract chunk_path temp_path [] s =
     emit [Chunk_failed (os_path_basename chunk_path)] s"
| "retry_loop sc extract chunk_path temp_path (attempt # rest) s =
     (case extract (calls_made (trace s)) chunk_path of
        Raised e \<Rightarrow>
          retry_loop sc extract chunk_path temp_path rest
            (emit [Remote_call chunk_path, Attempt_error (attempt + 1) e, Sleep (cooldown sc e)] s)
      | Returned payload \<Rightarrow>
          (case save sc payload of
             Inr c \<Rightarrow>
               emit [Sleep (proactive_delay sc)]
                 (write_checkpoint temp_path c (emit [Remote_call chunk_path] s))
           | Inl (e, c) \<Rightarrow>
               retry_loop sc extract chunk_path temp_path rest
                 (emit [Attempt_error (attempt + 1) e, Sleep (cooldown sc e)]
                    (write_checkpoint temp_path c (emit [Remote_call chunk_path] s)))))"

text \<open>The body of \<^verbatim>\<open>for chunk_path in chunks_to_process\<close>: the checkpoint test, then the
  retry loop.\<close>

definition process_chunk ::
  "('p, 'c) script \<Rightarrow> 'p extractor \<Rightarrow> string \<Rightarrow> string \<Rightarrow> 'c state \<Rightarrow> 'c state"
where
  "process_chunk sc extract temp_act_chunk_path chunk_path s =
     (let temp_path = chunk_temp_path sc temp_act_chunk_path chunk_path
      in if path_exists temp_path s
         then emit [Chunk_skipped (os_path_basename chunk_path)] s
         else retry_loop sc extract chunk_path temp_path [0..<MAX_RETRIES] s)"

fun process_chunks ::
  "('p, 'c) script \<Rightarrow> 'p extractor \<Rightarrow> string \<Rightarrow> string list \<Rightarrow> 'c state \<Rightarrow> 'c state"
where
  "process_chunks sc extract temp_act_chunk_path [] s = s"
| "process_chunks sc extract temp_act_chunk_path (chunk_path # rest) s =
     process_chunks sc extract temp_act_chunk_path rest
       (process_chunk sc extract temp_act_chunk_path chunk_path s)"

subsection \<open>Discovering the acts and their chunks\<close>

text \<open>The folders of a script, and the input tree it reads: \<open>tree p\<close> is
  \<^verbatim>\<open>os.listdir(p)\<close> when \<open>p\<close> is a directory and \<open>None\<close> when it is not.\<close>

record folders =
  TOP_LEVEL_FOLDER :: string
  TEMP_OUTPUT_FOLDER :: string
  FINAL_OUTPUT_FOLDER :: string

type_synonym tree = "string \<Rightarrow> string list option"

definition text_folders :: folders where
  "text_folders =
     \<lparr>TOP_LEVEL_FOLDER = ''extraction-component'',
      TEMP_OUTPUT_FOLDER = ''temp_extracted_chunks'',
      FINAL_OUTPUT_FOLDER = ''extracted_acts_final''\<rparr>"

definition clause_folders :: folders where
  "clause_folders =
     \<lparr>TOP_LEVEL_FOLDER = ''.'',
      TEMP_OUTPUT_FOLDER = ''temp_chunk_json'',
      FINAL_OUTPUT_FOLDER = ''extracted_acts_structured_json''\<rparr>"

definition grouped_folders :: folders where
  "grouped_folders =
     \<lparr>TOP_LEVEL_FOLDER = ''.'',
      TEMP_OUTPUT_FOLDER = ''temp_chunk_grouped_json'',
      FINAL_OUTPUT_FOLDER = ''extracted_acts_grouped_json''\<rparr>"

definition final_output_path :: "folders \<Rightarrow> string" where
  "final_output_path fo = os_path_join (TOP_LEVEL_FOLDER fo) (FINAL_OUTPUT_FOLDER fo)"

definition temp_output_path_base :: "folders \<Rightarrow> string" where
  "temp_output_path_base fo = os_path_join (TOP_LEVEL_FOLDER fo) (TEMP_OUTPUT_FOLDER fo)"

definition nested_act_path :: "folders \<Rightarrow> string \<Rightarrow> string" where
  "nested_act_path fo act_name =
     os_path_join (os_path_join (TOP_LEVEL_FOLDER fo) act_name) act_name"

definition temp_act_chunk_path :: "folders \<Rightarrow> string \<Rightarrow> string" where
  "temp_act_chunk_path fo act_name = os_path_join (temp_output_path_base fo) act_name"

definition main_act_folders :: "folders \<Rightarrow> tree \<Rightarrow> string list" where
  "main_act_folders fo tree =
     (case tree (TOP_LEVEL_FOLDER fo) of
        None \<Rightarrow> []
      | Some entries \<Rightarrow>
          filter (\<lambda>f. tree (os_path_join (TOP_LEVEL_FOLDER fo) f) \<noteq> None
                    \<and> f \<notin> set [FINAL_OUTPUT_FOLDER fo, TEMP_OUTPUT_FOLDER fo, ''.git'', ''venv''])
            entries)"

definition chunk_subfolders :: "string list" where
  "chunk_subfolders = [''Initial Chunk'', ''Overlap Chunk'']"

text \<open>\<^verbatim>\<open>extract_script.py\<close>: each subfolder's listing is sorted, its PDFs are appended
  subfolder after subfolder.\<close>

definition chunks_to_process_text :: "tree \<Rightarrow> string \<Rightarrow> string list" where
  "chunks_to_process_text tree nested =
     concat (map (\<lambda>subfolder.
        let subfolder_path = os_path_join nested subfolder
        in case tree subfolder_path of
             None \<Rightarrow> []
           | Some names \<Rightarrow> map (os_path_join subfolder_path) (filter is_pdf (sort names)))
       chunk_subfolders)"

text \<open>\<^verbatim>\<open>test.py\<close>, \<^verbatim>\<open>test_v1.py\<close>: the joined paths of the PDFs of both subfolders are
  collected and sorted as one list.\<close>

definition chunks_to_process_json :: "tree \<Rightarrow> string \<Rightarrow> string list" where
  "chunks_to_process_json tree nested =
     sort (concat (map (\<lambda>sub.
        case tree (os_path_join nested sub) of
          None \<Rightarrow> []
        | Some names \<Rightarrow> map (os_path_join (os_path_join nested sub)) (filter is_pdf names))
       chunk_subfolders))"

subsection \<open>Assembling the final artifact\<close>

definition write_final :: "string \<Rightarrow> 'c \<Rightarrow> 'c state \<Rightarrow> 'c state" where
  "write_final p c s =
     s\<lparr>files := AList.update p c (files s), trace := trace s @ [Final_write p]\<rparr>"

text \<open>\<^verbatim>\<open>extract_script.py\<close>, the loop that fills \<^verbatim>\<open>final_text_parts\<close>: over
  \<^verbatim>\<open>chunks_to_process\<close>, reading the checkpoints that exist.\<close>

fun final_text_parts ::
  "string \<Rightarrow> string list \<Rightarrow> string state \<Rightarrow> string list \<Rightarrow> string list"
where
  "final_text_parts temp_dir [] s parts = parts"
| "final_text_parts temp_dir (chunk_path # rest) s parts =
     (case map_of (files s) (chunk_temp_path text_script temp_dir chunk_path) of
        Some t \<Rightarrow> final_text_parts temp_dir rest s (parts @ [t])
      | None \<Rightarrow> final_text_parts temp_dir rest s parts)"

definition blank_line :: string where
  "blank_line = [CHR 0x0A, CHR 0x0A]"

text \<open>The final combination of \<^verbatim>\<open>extract_script.py\<close>: nothing is written when no part
  was read.\<close>

definition final_combination_text ::
  "string \<Rightarrow> string list \<Rightarrow> string \<Rightarrow> string state \<Rightarrow> string state"
where
  "final_combination_text temp_dir chunks final_act_path s =
     (let parts = final_text_parts temp_dir chunks s []
      in if parts \<noteq> [] then write_final final_act_path (join blank_line parts) s else s)"

text \<open>The body of \<^verbatim>\<open>for act_name in main_act_folders\<close> in \<^verbatim>\<open>extract_script.py\<close>.\<close>

definition process_act_text ::
  "string option extractor \<Rightarrow> tree \<Rightarrow> string \<Rightarrow> string state \<Rightarrow> string state"
where
  "process_act_text extract tree act_name s =
     (let temp_dir = temp_act_chunk_path text_folders act_name;
          chunks = chunks_to_process_text tree (nested_act_path text_folders act_name)
      in if chunks = [] then emit [No_chunks act_name] s
         else final_combination_text temp_dir chunks
                (os_path_join (final_output_path text_folders) (act_name @ ''.txt''))
                (process_chunks text_script extract temp_dir chunks s))"

fun main_text ::
  "string option extractor \<Rightarrow> tree \<Rightarrow> string list \<Rightarrow> string state \<Rightarrow> string state"
where
  "main_text extract tree [] s = s"
| "main_text extract tree (act_name # rest) s =
     main_text extract tree rest (process_act_text extract tree act_name s)"

text \<open>\<^verbatim>\<open>test.py\<close>, \<^verbatim>\<open>test_v1.py\<close>: the assembler's input is the sorted list of the paths of
  the \<^verbatim>\<open>.json\<close> files in the act's temp directory.\<close>

definition temp_json_files :: "string \<Rightarrow> 'c state \<Rightarrow> string list" where
  "temp_json_files temp_dir s =
     sort (map (os_path_join temp_dir) (filter (suffix ''.json'') (listdir temp_dir s)))"

text \<open>\<^verbatim>\<open>test.py\<close>, the statements after \<^verbatim>\<open>json.load\<close> inside the \<^verbatim>\<open>try\<close>; the
  accumulator is \<^verbatim>\<open>(all_clauses, final_act_name, final_act_number)\<close>. What they raise
  (\<^verbatim>\<open>.get\<close> on a value that is no dict, \<^verbatim>\<open>extend\<close> with a value that cannot be
  iterated) is not caught by \<^verbatim>\<open>except (json.JSONDecodeError, FileNotFoundError)\<close>.\<close>

definition merge_temp_data ::
  "json \<Rightarrow> json list \<times> json \<times> json \<Rightarrow> py_error + (json list \<times> json \<times> json)"
where
  "merge_temp_data temp_data acc =
     (case acc of (all_clauses, final_act_name, final_act_number) \<Rightarrow>
        (case temp_data of
           JObj d \<Rightarrow>
             (case (if truthy (py_get d ''clauses'')
                    then (case py_iter (py_get d ''clauses'') of
                            None \<Rightarrow> Inl TypeError
                          | Some items \<Rightarrow> Inr (all_clauses @ items))
                    else Inr all_clauses) of
                Inl err \<Rightarrow> Inl err
              | Inr all_clauses' \<Rightarrow>
                  Inr (all_clauses',
                       if final_act_name = JStr ''Unknown'' \<and> py_get d ''act_name'' \<noteq> JStr ''Unknown''
                       then py_get d ''act_name'' else final_act_name,
                       if final_act_number = JStr ''Unknown'' \<and> py_get d ''act_number'' \<noteq> JStr ''Unknown''
                       then py_get d ''act_number'' else final_act_number))
         | _ \<Rightarrow> Inl AttributeError))"

text \<open>\<^verbatim>\<open>test_v1.py\<close>: \<^verbatim>\<open>master_clause_list.extend(clauses_from_chunk)\<close>.\<close>

definition extend_master :: "json \<Rightarrow> json list \<Rightarrow> py_error + json list" where
  "extend_master clauses_from_chunk master_clause_list =
     (case py_iter clauses_from_chunk of
        None \<Rightarrow> Inl TypeError
      | Some items \<Rightarrow> Inr (master_clause_list @ items))"

text \<open>\<^verbatim>\<open>for temp_json_path in temp_json_files: try ... except ...\<close>, with the statements
  after \<^verbatim>\<open>json.load\<close> as \<open>step\<close>. A path that is missing or does not decode is reported
  and passed over; an exception of \<open>step\<close> ends the run.\<close>

fun combine ::
  "(json \<Rightarrow> 'a \<Rightarrow> py_error + 'a) \<Rightarrow> string list \<Rightarrow> 'a \<Rightarrow> json_file state
     \<Rightarrow> py_error + ('a \<times> json_file state)"
where
  "combine step [] acc s = Inr (acc, s)"
| "combine step (temp_json_path # rest) acc s =
     (case map_of (files s) temp_json_path of
        Some (Holds temp_data) \<Rightarrow>
          (case step temp_data acc of
             Inl err \<Rightarrow> Inl err
           | Inr acc' \<Rightarrow> combine step rest acc' s)
      | _ \<Rightarrow> combine step rest acc
               (emit [Decode_warning (os_path_basename temp_json_path)] s))"

definition final_act_json_path :: "folders \<Rightarrow> string \<Rightarrow> string" where
  "final_act_json_path fo act_name =
     os_path_join (final_output_path fo) (act_name @ ''.json'')"

text \<open>The final combination of \<^verbatim>\<open>test.py\<close>.\<close>

definition final_combination_clauses ::
  "string \<Rightarrow> string \<Rightarrow> json_file state \<Rightarrow> py_error + json_file state"
where
  "final_combination_clauses temp_dir final_path s =
     (case combine merge_temp_data (temp_json_files temp_dir s)
             ([], JStr ''Unknown'', JStr ''Unknown'') s of
        Inl err \<Rightarrow> Inl err
      | Inr ((all_clauses, final_act_name, final_act_number), s') \<Rightarrow>
          if all_clauses \<noteq> []
          then Inr (write_final final_path
                      (Holds (JObj [(''act_name'', final_act_name),
                                    (''act_number'', final_act_number),
                                    (''clauses'', JArr all_clauses)])) s')
          else Inr s')"

text \<open>The final combination of \<^verbatim>\<open>test_v1.py\<close>.\<close>

definition final_combination_grouped ::
  "string \<Rightarrow> string \<Rightarrow> json_file state \<Rightarrow> py_error + json_file state"
where
  "final_combination_grouped temp_dir final_path s =
     (case combine extend_master (temp_json_files temp_dir s) [] s of
        Inl err \<Rightarrow> Inl err
      | Inr (master_clause_list, s') \<Rightarrow>
          if master_clause_list \<noteq> []
          then Inr (write_final final_path (Holds (JArr master_clause_list)) s')
          else Inr s')"

text \<open>The body of \<^verbatim>\<open>for act_name in main_act_folders\<close> in \<^verbatim>\<open>test.py\<close> and in
  \<^verbatim>\<open>test_v1.py\<close>, which differ in their folders and their final combination.\<close>

definition process_act_json ::
  "folders \<Rightarrow> (string \<Rightarrow> string \<Rightarrow> json_file state \<Rightarrow> py_error + json_file state)
     \<Rightarrow> json extractor \<Rightarrow> tree \<Rightarrow> string \<Rightarrow> json_file state \<Rightarrow> py_error + json_file state"
where
  "process_act_json fo final_combination extract tree act_name s =
     (if path_exists (final_act_json_path fo act_name) s
      then Inr (emit [Act_skipped act_name] s)
      else
        let temp_dir = temp_act_chunk_path fo act_name;
            chunks = chunks_to_process_json tree (nested_act_path fo act_name)
        in if chunks = [] then Inr (emit [No_chunks act_name] s)
           else final_combination temp_dir (final_act_json_path fo act_name)
                  (process_chunks json_script extract temp_dir chunks s))"

definition process_act_clauses ::
  "json extractor \<Rightarrow> tree \<Rightarrow> string \<Rightarrow> json_file state \<Rightarrow> py_error + json_file state"
where
  "process_act_clauses = process_act_json clause_folders final_combination_clauses"

definition process_act_grouped ::
  "json extractor \<Rightarrow> tree \<Rightarrow> string \<Rightarrow> json_file state \<Rightarrow> py_error + json_file state"
where
  "process_act_grouped = process_act_json grouped_folders final_combination_grouped"

text \<open>The act loop of the two JSON scripts: an uncaught exception ends it.\<close>

fun main_json ::
  "(string \<Rightarrow> json_file state \<Rightarrow> py_error + json_file state) \<Rightarrow> string list
     \<Rightarrow> json_file state \<Rightarrow> py_error + json_file state"
where
  "main_json process_act [] s = Inr s"
| "main_json process_act (act_name # rest) s =
     (case process_act act_name s of
        Inl err \<Rightarrow> Inl err
      | Inr s' \<Rightarrow> main_json process_act rest s')"

subsection \<open>Reading traces\<close>

text \<open>The events a step added to the trace.\<close>

definition new_events :: "'c state \<Rightarrow> 'c state \<Rightarrow> event list" where
  "new_events s s' = drop (length (trace s)) (trace s')"

text \<open>Every reported attempt error of a trace is followed at once by the pause \<open>f\<close>
  gives for its text.\<close>

fun cooled :: "(string \<Rightarrow> nat) \<Rightarrow> event list \<Rightarrow> bool" where
  "cooled f [] = True"
| "cooled f (Attempt_error k e # Sleep n # tr) = (n = f e \<and> cooled f tr)"
| "cooled f (Attempt_error k e # tr) = False"
| "cooled f (ev # tr) = cooled f tr"

text \<open>The pauses as the specification classifies them: the long one after a rate-limit
  signal, the short one after any other failure.\<close>

definition classified_cooldown :: "string \<Rightarrow> nat" where
  "classified_cooldown e = (if rate_limited e then RETRY_DELAY_SECONDS else 10)"

fun checkpoint_writes_of :: "event list \<Rightarrow> string list" where
  "checkpoint_writes_of [] = []"
| "checkpoint_writes_of (Checkpoint_write p # tr) = p # checkpoint_writes_of tr"
| "checkpoint_writes_of (e # tr) = checkpoint_writes_of tr"

fun skips_of :: "event list \<Rightarrow> string list" where
  "skips_of [] = []"
| "skips_of (Chunk_skipped b # tr) = b # skips_of tr"
| "skips_of (e # tr) = skips_of tr"

text \<open>A path whose file decodes, and the decoded values of a list of paths, in order.\<close>

definition decodes :: "json_file state \<Rightarrow> string \<Rightarrow> bool" where
  "decodes s p = (case map_of (files s) p of Some (Holds v) \<Rightarrow> True | _ \<Rightarrow> False)"

definition loaded :: "string list \<Rightarrow> json_file state \<Rightarrow> json list" where
  "loaded ps s =
     List.map_filter
       (\<lambda>p. case map_of (files s) p of Some (Holds v) \<Rightarrow> Some v | _ \<Rightarrow> None) ps"






text \<open>The outcome of a final combination as far as the artifact goes: the exception, or
  what the final path holds.\<close>

definition artifact ::
  "string \<Rightarrow> py_error + json_file state \<Rightarrow> py_error + json_file option" where
  "artifact final_path r =
     (case r of Inl err \<Rightarrow> Inl err | Inr s \<Rightarrow> Inr (map_of (files s) final_path))"


section \<open>Properties\<close>

subsection \<open>States, traces and the retry loop\<close>

lemma files_emit [simp]: "files (emit es s) = files s"
  by (simp add: emit_def)

lemma trace_emit [simp]: "trace (emit es s) = trace s @ es"
  by (simp add: emit_def)

lemma emit_emit [simp]: "emit es (emit es' s) = emit (es' @ es) s"
  by (simp add: emit_def)

lemma path_exists_emit [simp]: "path_exists p (emit es s) = path_exists p s"
  by (simp add: path_exists_def)

lemma files_write_checkpoint [simp]:
  "files (write_checkpoint p c s) = AList.update p c (files s)"
  by (simp add: write_checkpoint_def)

lemma trace_write_checkpoint [simp]:
  "trace (write_checkpoint p c s) = trace s @ [Checkpoint_write p]"
  by (simp add: write_checkpoint_def)

lemma calls_of_append [simp]: "calls_of (a @ b) = calls_of a @ calls_of b"
  by (induction a rule: calls_of.induct) simp_all

lemma checkpoint_writes_of_append [simp]:
  "checkpoint_writes_of (a @ b) = checkpoint_writes_of a @ checkpoint_writes_of b"
  by (induction a rule: checkpoint_writes_of.induct) simp_all

lemma skips_of_append [simp]: "skips_of (a @ b) = skips_of a @ skips_of b"
  by (induction a rule: skips_of.induct) simp_all

lemma calls_made_append [simp]: "calls_made (a @ b) = calls_made a + calls_made b"
  by (simp add: calls_made_def)


lemma new_events_append [simp]: "trace s' = trace s @ new \<Longrightarrow> new_events s s' = new"
  by (simp add: new_events_def)

text \<open>What one run of the retry loop adds to the trace and does to the files.\<close>

lemma retry_loop_new:
  "\<exists>new. trace (retry_loop sc extract chunk_path temp_path attempts s) = trace s @ new
     \<and> cooled (cooldown sc) new
     \<and> set (calls_of new) \<subseteq> {chunk_path}
     \<and> length (calls_of new) \<le> length attempts
     \<and> (attempts \<noteq> [] \<longrightarrow> calls_of new \<noteq> [])
     \<and> set (checkpoint_writes_of new) \<subseteq> {temp_path}
     \<and> skips_of new = []"
proof (induction attempts arbitrary: s)
  case Nil
  show ?case by simp
next
  case (Cons attempt rest)
  show ?case
  proof (cases "extract (calls_made (trace s)) chunk_path")
    case (Raised e)
    let ?s1 = "emit [Remote_call chunk_path, Attempt_error (attempt + 1) e, Sleep (cooldown sc e)] s"
    from Cons.IH [of ?s1] obtain new where
      new: "trace (retry_loop sc extract chunk_path temp_path rest ?s1) = trace ?s1 @ new"
        "cooled (cooldown sc) new" "set (calls_of new) \<subseteq> {chunk_path}"
        "length (calls_of new) \<le> length rest" "set (checkpoint_writes_of new) \<subseteq> {temp_path}"
        "skips_of new = []"
      by blast
    show ?thesis
      by (rule exI [of _ "[Remote_call chunk_path, Attempt_error (attempt + 1) e, Sleep (cooldown sc e)] @ new"])
        (use Raised new in simp)
  next
    case (Returned payload)
    show ?thesis
    proof (cases "save sc payload")
      case (Inr c)
      show ?thesis
        by (rule exI [of _ "[Remote_call chunk_path, Checkpoint_write temp_path, Sleep (proactive_delay sc)]"])
          (use Returned Inr in simp)
    next
      case (Inl ec)
      obtain e c where ec: "ec = (e, c)" by (cases ec)
      let ?s1 = "emit [Attempt_error (attempt + 1) e, Sleep (cooldown sc e)]
                    (write_checkpoint temp_path c (emit [Remote_call chunk_path] s))"
      from Cons.IH [of ?s1] obtain new where
        new: "trace (retry_loop sc extract chunk_path temp_path rest ?s1) = trace ?s1 @ new"
          "cooled (cooldown sc) new" "set (calls_of new) \<subseteq> {chunk_path}"
          "length (calls_of new) \<le> length rest" "set (checkpoint_writes_of new) \<subseteq> {temp_path}"
          "skips_of new = []"
        by blast
      show ?thesis
        by (rule exI [of _ "[Remote_call chunk_path, Checkpoint_write temp_path,
                Attempt_error (attempt + 1) e, Sleep (cooldown sc e)] @ new"])
          (use Returned Inl ec new in simp)
    qed
  qed
qed

lemma retry_loop_files_other:
  "q \<noteq> temp_path \<Longrightarrow>
     map_of (files (retry_loop sc extract chunk_path temp_path attempts s)) q = map_of (files s) q"
proof (induction attempts arbitrary: s)
  case Nil
  show ?case by simp
next
  case (Cons attempt rest)
  show ?case
    using Cons.prems
    by (auto simp: Cons.IH update_conv' split: outcome.splits sum.splits)
qed

lemma process_chunk_present:
  "path_exists (chunk_temp_path sc temp_dir chunk_path) s \<Longrightarrow>
     process_chunk sc extract temp_dir chunk_path s =
       emit [Chunk_skipped (os_path_basename chunk_path)] s"
  by (simp add: process_chunk_def)

lemma process_chunk_absent:
  "\<not> path_exists (chunk_temp_path sc temp_dir chunk_path) s \<Longrightarrow>
     process_chunk sc extract temp_dir chunk_path s =
       retry_loop sc extract chunk_path (chunk_temp_path sc temp_dir chunk_path)
         [0..<MAX_RETRIES] s"
  by (simp add: process_chunk_def)

lemma process_chunk_new:
  "\<exists>new. trace (process_chunk sc extract temp_dir chunk_path s) = trace s @ new
     \<and> cooled (cooldown sc) new
     \<and> length (calls_of new) \<le> MAX_RETRIES
     \<and> set (calls_of new) =
         (if path_exists (chunk_temp_path sc temp_dir chunk_path) s then {} else {chunk_path})
     \<and> set (checkpoint_writes_of new) \<subseteq> {chunk_temp_path sc temp_dir chunk_path}
     \<and> skips_of new =
         (if path_exists (chunk_temp_path sc temp_dir chunk_path) s
          then [os_path_basename chunk_path] else [])"
proof (cases "path_exists (chunk_temp_path sc temp_dir chunk_path) s")
  case True
  show ?thesis
    by (rule exI [of _ "[Chunk_skipped (os_path_basename chunk_path)]"])
      (simp add: True process_chunk_present)
next
  case False
  from retry_loop_new [of sc "extract" chunk_path "chunk_temp_path sc temp_dir chunk_path"
        "[0..<MAX_RETRIES]" s]
  obtain new where
    new: "trace (retry_loop sc extract chunk_path (chunk_temp_path sc temp_dir chunk_path)
                   [0..<MAX_RETRIES] s) = trace s @ new"
      "cooled (cooldown sc) new" "set (calls_of new) \<subseteq> {chunk_path}"
      "length (calls_of new) \<le> length [0..<MAX_RETRIES]"
      "[0..<MAX_RETRIES] \<noteq> [] \<longrightarrow> calls_of new \<noteq> []"
      "set (checkpoint_writes_of new) \<subseteq> {chunk_temp_path sc temp_dir chunk_path}"
      "skips_of new = []"
    by blast
  from new(5) have "calls_of new \<noteq> []"
    by (simp add: MAX_RETRIES_def)
  with new(3) have "set (calls_of new) = {chunk_path}"
    by (cases "calls_of new") auto
  with new show ?thesis
    by (intro exI [of _ new]) (simp add: False process_chunk_absent)
qed

lemma process_chunk_files_other:
  "q \<noteq> chunk_temp_path sc temp_dir chunk_path \<Longrightarrow>
     map_of (files (process_chunk sc extract temp_dir chunk_path s)) q = map_of (files s) q"
  by (simp add: process_chunk_def Let_def retry_loop_files_other)


subsection \<open>The chunk loop\<close>

lemma path_exists_cong: "map_of (files s') q = map_of (files s) q \<Longrightarrow> path_exists q s' = path_exists q s"
  by (simp add: path_exists_def)


lemma process_chunks_files_other:
  "q \<notin> chunk_temp_path sc temp_dir ` set chunks \<Longrightarrow>
     map_of (files (process_chunks sc extract temp_dir chunks s)) q = map_of (files s) q"
  by (induction chunks arbitrary: s) (simp_all add: process_chunk_files_other)

lemma process_chunks_all_present:
  "\<forall>c\<in>set chunks. path_exists (chunk_temp_path sc temp_dir c) s \<Longrightarrow>
     process_chunks sc extract temp_dir chunks s =
       emit (map (\<lambda>c. Chunk_skipped (os_path_basename c)) chunks) s"
proof (induction chunks arbitrary: s)
  case Nil
  show ?case by (simp add: emit_def)
next
  case (Cons c rest)
  then show ?case
    by (simp add: process_chunk_present)
qed

lemma process_chunks_new:
  assumes "distinct (map (chunk_temp_path sc temp_dir) chunks)"
  shows "\<exists>new. trace (process_chunks sc extract temp_dir chunks s) = trace s @ new
     \<and> set (calls_of new) = {c \<in> set chunks. \<not> path_exists (chunk_temp_path sc temp_dir c) s}
     \<and> skips_of new =
         map os_path_basename (filter (\<lambda>c. path_exists (chunk_temp_path sc temp_dir c) s) chunks)
     \<and> set (checkpoint_writes_of new) \<subseteq>
         chunk_temp_path sc temp_dir `
           {c \<in> set chunks. \<not> path_exists (chunk_temp_path sc temp_dir c) s}
     \<and> length (calls_of new) \<le> MAX_RETRIES * length chunks"
  using assms
proof (induction chunks arbitrary: s)
  case Nil
  show ?case by simp
next
  case (Cons c rest)
  let ?key = "chunk_temp_path sc temp_dir"
  let ?s1 = "process_chunk sc extract temp_dir c s"
  from process_chunk_new [of sc "extract" temp_dir c s] obtain new1 where
    new1: "trace ?s1 = trace s @ new1"
      "length (calls_of new1) \<le> MAX_RETRIES"
      "set (calls_of new1) = (if path_exists (?key c) s then {} else {c})"
      "set (checkpoint_writes_of new1) \<subseteq> {?key c}"
      "skips_of new1 = (if path_exists (?key c) s then [os_path_basename c] else [])"
    by blast
  have same: "path_exists (?key c') ?s1 = path_exists (?key c') s" if "c' \<in> set rest" for c'
  proof -
    from that Cons.prems have "?key c' \<noteq> ?key c" by (metis distinct.simps(2) image_eqI list.simps(9) set_map)
    then show ?thesis
      by (intro path_exists_cong process_chunk_files_other)
  qed
  from Cons.prems have "distinct (map ?key rest)" by simp
  from Cons.IH [OF this, of ?s1] obtain new2 where
    new2: "trace (process_chunks sc extract temp_dir rest ?s1) = trace ?s1 @ new2"
      "set (calls_of new2) = {c' \<in> set rest. \<not> path_exists (?key c') ?s1}"
      "skips_of new2 = map os_path_basename (filter (\<lambda>c'. path_exists (?key c') ?s1) rest)"
      "set (checkpoint_writes_of new2) \<subseteq> ?key ` {c' \<in> set rest. \<not> path_exists (?key c') ?s1}"
      "length (calls_of new2) \<le> MAX_RETRIES * length rest"
    by blast
  have calls2: "set (calls_of new2) = {c' \<in> set rest. \<not> path_exists (?key c') s}"
    using new2(2) same by auto
  have filt: "filter (\<lambda>c'. path_exists (?key c') ?s1) rest = filter (\<lambda>c'. path_exists (?key c') s) rest"
    using same by (intro filter_cong) auto
  have writes2: "set (checkpoint_writes_of new2) \<subseteq> ?key ` {c' \<in> set rest. \<not> path_exists (?key c') s}"
    using new2(4) same by auto
  have written1: "set (checkpoint_writes_of new1) \<subseteq>
      ?key ` {c' \<in> set (c # rest). \<not> path_exists (?key c') s}"
  proof (cases "path_exists (?key c) s")
    case True
    then have "new1 = [Chunk_skipped (os_path_basename c)]"
      using new1(1) by (simp add: process_chunk_present)
    then show ?thesis by simp
  next
    case False
    then show ?thesis using new1(4) by auto
  qed
  show ?case
  proof (intro exI [of _ "new1 @ new2"] conjI)
    show "trace (process_chunks sc extract temp_dir (c # rest) s) = trace s @ new1 @ new2"
      using new1(1) new2(1) by simp
    show "set (calls_of (new1 @ new2)) = {c' \<in> set (c # rest). \<not> path_exists (?key c') s}"
      using new1(3) calls2 by auto
    show "skips_of (new1 @ new2) =
        map os_path_basename (filter (\<lambda>c'. path_exists (?key c') s) (c # rest))"
      using new1(5) new2(3) filt by simp
    show "set (checkpoint_writes_of (new1 @ new2)) \<subseteq>
        ?key ` {c' \<in> set (c # rest). \<not> path_exists (?key c') s}"
      using written1 writes2 by auto
    show "length (calls_of (new1 @ new2)) \<le> MAX_RETRIES * length (c # rest)"
      using new1(2) new2(5) by simp
  qed
qed

lemma files_write_final [simp]: "files (write_final p c s) = AList.update p c (files s)"
  by (simp add: write_final_def)

lemma trace_write_final [simp]: "trace (write_final p c s) = trace s @ [Final_write p]"
  by (simp add: write_final_def)

lemma final_combination_text_new:
  "\<exists>new. trace (final_combination_text temp_dir chunks final_act_path s) = trace s @ new
     \<and> calls_of new = [] \<and> checkpoint_writes_of new = []"
  by (simp add: final_combination_text_def Let_def)

subsection \<open>The final combinations\<close>




lemma decodes_emit [simp]: "decodes (emit es s) p = decodes s p"
  by (simp add: decodes_def)

lemma loaded_emit [simp]: "loaded ps (emit es s) = loaded ps s"
  by (simp add: loaded_def)











subsection \<open>Listing the temp directory\<close>






subsection \<open>Stores that hold the same files in another order\<close>




lemma artifact_simps [simp]:
  "artifact out (Inl err) = Inl err" "artifact out (Inr s) = Inr (map_of (files s) out)"
  by (simp_all add: artifact_def)






section \<open>The claims\<close>




text \<open>
  Claim C2, as amended. In \<^verbatim>\<open>test.py\<close> and \<^verbatim>\<open>test_v1.py\<close>, for an act whose final artifact
  exists when its turn comes, the act's body only reports the skip: no remote call, no
  checkpoint write, no file changed. \<^verbatim>\<open>extract_script.py\<close> has no such test: there the
  act's body makes no remote call and writes no checkpoint when every discovered chunk has
  its checkpoint.
\<close>

theorem existing_final_artifact:
  "(path_exists (final_act_json_path clause_folders act_name) s \<longrightarrow>
      process_act_clauses extract tree act_name s = Inr (emit [Act_skipped act_name] s))
   \<and> (path_exists (final_act_json_path grouped_folders act_name) s \<longrightarrow>
      process_act_grouped extract tree act_name s = Inr (emit [Act_skipped act_name] s))
   \<and> ((\<forall>c \<in> set (chunks_to_process_text tree (nested_act_path text_folders act_name)).
          path_exists (chunk_temp_path text_script (temp_act_chunk_path text_folders act_name) c) st)
       \<longrightarrow> calls_of (new_events st (process_act_text extract_text tree act_name st)) = []
         \<and> checkpoint_writes_of (new_events st (process_act_text extract_text tree act_name st)) = [])"
proof (intro conjI impI)
  assume "path_exists (final_act_json_path clause_folders act_name) s"
  then show "process_act_clauses extract tree act_name s = Inr (emit [Act_skipped act_name] s)"
    by (simp add: process_act_clauses_def process_act_json_def)
next
  assume "path_exists (final_act_json_path grouped_folders act_name) s"
  then show "process_act_grouped extract tree act_name s = Inr (emit [Act_skipped act_name] s)"
    by (simp add: process_act_grouped_def process_act_json_def)
next
  let ?chunks = "chunks_to_process_text tree (nested_act_path text_folders act_name)"
  let ?dir = "temp_act_chunk_path text_folders act_name"
  let ?final = "os_path_join (final_output_path text_folders) (act_name @ ''.txt'')"
  assume all: "\<forall>c \<in> set ?chunks. path_exists (chunk_temp_path text_script ?dir c) st"
  let ?s1 = "emit (map (\<lambda>c. Chunk_skipped (os_path_basename c)) ?chunks) st"
  have skipped: "process_chunks text_script extract_text ?dir ?chunks st = ?s1"
    using all by (rule process_chunks_all_present)
  from final_combination_text_new [of ?dir ?chunks ?final ?s1] obtain new where
    new: "trace (final_combination_text ?dir ?chunks ?final ?s1) = trace ?s1 @ new"
      "calls_of new = []" "checkpoint_writes_of new = []"
    by blast
  have skips: "calls_of (map (\<lambda>c. Chunk_skipped (os_path_basename c)) cs) = []
      \<and> checkpoint_writes_of (map (\<lambda>c. Chunk_skipped (os_path_basename c)) cs) = []" for cs
    by (induction cs) simp_all
  have tr: "trace (process_act_text extract_text tree act_name st) =
      trace st @ (if ?chunks = [] then [No_chunks act_name]
                  else map (\<lambda>c. Chunk_skipped (os_path_basename c)) ?chunks @ new)"
    using new(1) by (simp add: process_act_text_def Let_def skipped)
  show "calls_of (new_events st (process_act_text extract_text tree act_name st)) = []"
    using new(2) skips by (simp add: new_events_append [OF tr])
  show "checkpoint_writes_of (new_events st (process_act_text extract_text tree act_name st)) = []"
    using new(3) skips by (simp add: new_events_append [OF tr])
qed

theorem existing_final_artifact_witness:
  "path_exists (final_act_json_path clause_folders ''ActX'')
     \<lparr>files = [(''./extracted_acts_structured_json/ActX.json'', Holds (JObj []))], trace = []\<rparr>
   \<and> process_act_clauses (\<lambda>n p. Returned (JObj []))
        (\<lambda>p. if p = ''./ActX/ActX/Initial Chunk'' then Some [''a.pdf''] else None) ''ActX''
        \<lparr>files = [(''./extracted_acts_structured_json/ActX.json'', Holds (JObj []))], trace = []\<rparr>
     = Inr \<lparr>files = [(''./extracted_acts_structured_json/ActX.json'', Holds (JObj []))],
            trace = [Act_skipped ''ActX'']\<rparr>"
proof -
  have p: "path_exists (final_act_json_path clause_folders ''ActX'')
     \<lparr>files = [(''./extracted_acts_structured_json/ActX.json'', Holds (JObj []))], trace = []\<rparr>"
    by code_simp
  show ?thesis
    using existing_final_artifact [of "''ActX''"
        "\<lparr>files = [(''./extracted_acts_structured_json/ActX.json'', Holds (JObj []))], trace = []\<rparr>"
        "\<lambda>n p. Returned (JObj [])"
        "\<lambda>p. if p = ''./ActX/ActX/Initial Chunk'' then Some [''a.pdf''] else None"] p
    by (simp add: emit_def)
qed

theorem text_script_rerun_counterexample:
  "path_exists (os_path_join (final_output_path text_folders) (''ActX'' @ ''.txt''))
     \<lparr>files = [(''extraction-component/extracted_acts_final/ActX.txt'', ''OLD'')], trace = []\<rparr>
   \<and> new_events
        \<lparr>files = [(''extraction-component/extracted_acts_final/ActX.txt'', ''OLD'')], trace = []\<rparr>
        (process_act_text (\<lambda>n p. Returned (Some ''TEXT_A''))
           (\<lambda>p. if p = ''extraction-component/ActX/ActX/Initial Chunk'' then Some [''a.pdf'']
                else None)
           ''ActX''
           \<lparr>files = [(''extraction-component/extracted_acts_final/ActX.txt'', ''OLD'')], trace = []\<rparr>)
     = [Remote_call ''extraction-component/ActX/ActX/Initial Chunk/a.pdf'',
        Checkpoint_write ''extraction-component/temp_extracted_chunks/ActX/a.txt'',
        Sleep 65,
        Final_write ''extraction-component/extracted_acts_final/ActX.txt'']"
  by code_simp

text \<open>
  Claim C3, as amended. In \<^verbatim>\<open>test.py\<close> and \<^verbatim>\<open>test_v1.py\<close> a failed attempt is
  classified: an error text with \<^verbatim>\<open>429\<close> or \<^verbatim>\<open>ResourceExhausted\<close> in it is followed by
  the long pause (\<open>RETRY_DELAY_SECONDS = 70\<close>), any other by the short one (10). In
  \<^verbatim>\<open>extract_script.py\<close> failures are not classified: every failed attempt is followed by
  one and the same pause, whatever the error. In all three every reported attempt error is followed at once by the pause of
  its script, and a chunk gets at most \<open>MAX_RETRIES\<close> remote calls, whatever the errors.
\<close>

theorem cooldown_by_script:
  "cooled (cooldown sc) (new_events s (process_chunk sc extract temp_dir chunk_path s))
   \<and> length (calls_of (new_events s (process_chunk sc extract temp_dir chunk_path s)))
       \<le> MAX_RETRIES
   \<and> cooldown json_script e = classified_cooldown e
   \<and> classified_cooldown e =
       (if contains ''429'' e \<or> contains ''ResourceExhausted'' e then 70 else 10)
   \<and> cooldown text_script e = cooldown text_script e'"
proof -
  from process_chunk_new [of sc "extract" temp_dir chunk_path s] obtain new where
    "trace (process_chunk sc extract temp_dir chunk_path s) = trace s @ new"
    "cooled (cooldown sc) new" "length (calls_of new) \<le> MAX_RETRIES"
    by blast
  then show ?thesis
    by (simp add: json_script_def text_script_def classified_cooldown_def rate_limited_def
        RETRY_DELAY_SECONDS_def)
qed

theorem cooldown_by_script_witness:
  "new_events \<lparr>files = [], trace = []\<rparr>
     (process_chunk json_script
        (\<lambda>n p. if n = 0 then Raised ''429 Too Many Requests''
               else if n = 1 then Raised ''timed out'' else Returned (JArr []))
        ''t'' ''c/a.pdf'' \<lparr>files = [], trace = []\<rparr>)
   = [Remote_call ''c/a.pdf'', Attempt_error 1 ''429 Too Many Requests'', Sleep 70,
      Remote_call ''c/a.pdf'', Attempt_error 2 ''timed out'', Sleep 10,
      Remote_call ''c/a.pdf'', Checkpoint_write ''t/a.json'', Sleep 5]
   \<and> cooled (cooldown json_script)
       [Remote_call ''c/a.pdf'', Attempt_error 1 ''429 Too Many Requests'', Sleep 70,
        Remote_call ''c/a.pdf'', Attempt_error 2 ''timed out'', Sleep 10,
        Remote_call ''c/a.pdf'', Checkpoint_write ''t/a.json'', Sleep 5]"
proof -
  have run: "new_events \<lparr>files = [], trace = []\<rparr>
     (process_chunk json_script
        (\<lambda>n p. if n = 0 then Raised ''429 Too Many Requests''
               else if n = 1 then Raised ''timed out'' else Returned (JArr []))
        ''t'' ''c/a.pdf'' \<lparr>files = [], trace = []\<rparr>)
   = [Remote_call ''c/a.pdf'', Attempt_error 1 ''429 Too Many Requests'', Sleep 70,
      Remote_call ''c/a.pdf'', Attempt_error 2 ''timed out'', Sleep 10,
      Remote_call ''c/a.pdf'', Checkpoint_write ''t/a.json'', Sleep 5]"
    by code_simp
  show ?thesis
    using cooldown_by_script [of json_script "\<lparr>files = [], trace = []\<rparr>"
        "\<lambda>n p. if n = 0 then Raised ''429 Too Many Requests''
               else if n = 1 then Raised ''timed out'' else Returned (JArr [])"
        "''t''" "''c/a.pdf''"]
    unfolding run by simp
qed

theorem text_script_cooldown_counterexample:
  "\<not> cooled classified_cooldown
       (new_events \<lparr>files = [], trace = []\<rparr>
          (process_chunk text_script
             (\<lambda>n p. if n = 0 then Raised ''429 Too Many Requests'' else Returned (Some ''TEXT''))
             ''t'' ''c/a.pdf'' \<lparr>files = [], trace = []\<rparr>))
   \<and> new_events \<lparr>files = [], trace = []\<rparr>
          (process_chunk text_script
             (\<lambda>n p. if n = 0 then Raised ''429 Too Many Requests'' else Returned (Some ''TEXT''))
             ''t'' ''c/a.pdf'' \<lparr>files = [], trace = []\<rparr>)
       = [Remote_call ''c/a.pdf'', Attempt_error 1 ''429 Too Many Requests'', Sleep 10,
          Remote_call ''c/a.pdf'', Checkpoint_write ''t/a.txt'', Sleep 65]"
  by code_simp



text \<open>
  Claim C5, as amended. The checkpoint path of a chunk is a function of the act name and
  of the stem of the chunk's file name. When the chunks of an act have pairwise distinct
  checkpoint paths, a run of the chunk loop calls the service for exactly the chunks
  whose checkpoint is missing when the loop starts, skips exactly the others, and writes
  checkpoints of such missing chunks only. (Chunks that share a stem share one
  checkpoint.)
\<close>

theorem resume_by_checkpoint:
  assumes "distinct (map (chunk_temp_path sc (temp_act_chunk_path fo act_name)) chunks)"
  shows "set (calls_of (new_events s
             (process_chunks sc extract (temp_act_chunk_path fo act_name) chunks s)))
           = {c \<in> set chunks.
                \<not> path_exists (chunk_temp_path sc (temp_act_chunk_path fo act_name) c) s}
       \<and> skips_of (new_events s
             (process_chunks sc extract (temp_act_chunk_path fo act_name) chunks s))
           = map os_path_basename
               (filter (\<lambda>c. path_exists (chunk_temp_path sc (temp_act_chunk_path fo act_name) c) s)
                  chunks)
       \<and> set (checkpoint_writes_of (new_events s
             (process_chunks sc extract (temp_act_chunk_path fo act_name) chunks s)))
           \<subseteq> chunk_temp_path sc (temp_act_chunk_path fo act_name) `
               {c \<in> set chunks.
                  \<not> path_exists (chunk_temp_path sc (temp_act_chunk_path fo act_name) c) s}
       \<and> chunk_temp_path sc (temp_act_chunk_path fo act_name) chunk_path
           = os_path_join
               (os_path_join (os_path_join (TOP_LEVEL_FOLDER fo) (TEMP_OUTPUT_FOLDER fo)) act_name)
               (stem (os_path_basename chunk_path) @ chunk_suffix sc)"
proof -
  from process_chunks_new [OF assms, of "extract" s] obtain new where
    "trace (process_chunks sc extract (temp_act_chunk_path fo act_name) chunks s) = trace s @ new"
    "set (calls_of new) = {c \<in> set chunks.
        \<not> path_exists (chunk_temp_path sc (temp_act_chunk_path fo act_name) c) s}"
    "skips_of new = map os_path_basename
        (filter (\<lambda>c. path_exists (chunk_temp_path sc (temp_act_chunk_path fo act_name) c) s) chunks)"
    "set (checkpoint_writes_of new) \<subseteq> chunk_temp_path sc (temp_act_chunk_path fo act_name) `
        {c \<in> set chunks. \<not> path_exists (chunk_temp_path sc (temp_act_chunk_path fo act_name) c) s}"
    by blast
  then show ?thesis
    by (simp add: chunk_temp_path_def temp_act_chunk_path_def temp_output_path_base_def)
qed

theorem resume_by_checkpoint_witness:
  "distinct (map (chunk_temp_path json_script (temp_act_chunk_path clause_folders ''ActX''))
      [''./ActX/ActX/Initial Chunk/a.pdf'', ''./ActX/ActX/Initial Chunk/b.pdf''])
   \<and> calls_of (new_events \<lparr>files = [(''./temp_chunk_json/ActX/a.json'', Holds (JArr []))], trace = []\<rparr>
        (process_chunks json_script (\<lambda>n p. Returned (JArr [JStr ''B'']))
           (temp_act_chunk_path clause_folders ''ActX'')
           [''./ActX/ActX/Initial Chunk/a.pdf'', ''./ActX/ActX/Initial Chunk/b.pdf'']
           \<lparr>files = [(''./temp_chunk_json/ActX/a.json'', Holds (JArr []))], trace = []\<rparr>))
       = [''./ActX/ActX/Initial Chunk/b.pdf'']
   \<and> skips_of (new_events \<lparr>files = [(''./temp_chunk_json/ActX/a.json'', Holds (JArr []))], trace = []\<rparr>
        (process_chunks json_script (\<lambda>n p. Returned (JArr [JStr ''B'']))
           (temp_act_chunk_path clause_folders ''ActX'')
           [''./ActX/ActX/Initial Chunk/a.pdf'', ''./ActX/ActX/Initial Chunk/b.pdf'']
           \<lparr>files = [(''./temp_chunk_json/ActX/a.json'', Holds (JArr []))], trace = []\<rparr>))
       = [''a.pdf'']"
proof -
  have d: "distinct (map (chunk_temp_path json_script (temp_act_chunk_path clause_folders ''ActX''))
      [''./ActX/ActX/Initial Chunk/a.pdf'', ''./ActX/ActX/Initial Chunk/b.pdf''])"
    by code_simp
  have calls: "calls_of (new_events \<lparr>files = [(''./temp_chunk_json/ActX/a.json'', Holds (JArr []))], trace = []\<rparr>
        (process_chunks json_script (\<lambda>n p. Returned (JArr [JStr ''B'']))
           (temp_act_chunk_path clause_folders ''ActX'')
           [''./ActX/ActX/Initial Chunk/a.pdf'', ''./ActX/ActX/Initial Chunk/b.pdf'']
           \<lparr>files = [(''./temp_chunk_json/ActX/a.json'', Holds (JArr []))], trace = []\<rparr>))
       = [''./ActX/ActX/Initial Chunk/b.pdf'']"
    by code_simp
  show ?thesis
    using resume_by_checkpoint [OF d,
        of "\<lparr>files = [(''./temp_chunk_json/ActX/a.json'', Holds (JArr []))], trace = []\<rparr>"
          "\<lambda>n p. Returned (JArr [JStr ''B''])"] d calls
    by (simp add: path_exists_def chunk_temp_path_def temp_act_chunk_path_def
        temp_output_path_base_def clause_folders_def json_script_def os_path_join_def
        os_path_basename_def stem_def rfind_dot_def suffix_to_prefix)
qed

theorem shared_stem_counterexample:
  "calls_of (new_events \<lparr>files = [], trace = []\<rparr>
      (process_chunks json_script (\<lambda>n p. Returned (JArr [JStr p]))
         (temp_act_chunk_path clause_folders ''ActX'')
         [''./ActX/ActX/Initial Chunk/a.pdf'', ''./ActX/ActX/Overlap Chunk/a.pdf'']
         \<lparr>files = [], trace = []\<rparr>))
     = [''./ActX/ActX/Initial Chunk/a.pdf'']
   \<and> skips_of (new_events \<lparr>files = [], trace = []\<rparr>
      (process_chunks json_script (\<lambda>n p. Returned (JArr [JStr p]))
         (temp_act_chunk_path clause_folders ''ActX'')
         [''./ActX/ActX/Initial Chunk/a.pdf'', ''./ActX/ActX/Overlap Chunk/a.pdf'']
         \<lparr>files = [], trace = []\<rparr>))
     = [''a.pdf'']
   \<and> \<not> path_exists
         (chunk_temp_path json_script (temp_act_chunk_path clause_folders ''ActX'')
            ''./ActX/ActX/Overlap Chunk/a.pdf'')
         \<lparr>files = ([] :: (string \<times> json_file) list), trace = []\<rparr>
   \<and> set (calls_of (new_events \<lparr>files = [], trace = []\<rparr>
      (process_chunks json_script (\<lambda>n p. Returned (JArr [JStr p]))
         (temp_act_chunk_path clause_folders ''ActX'')
         [''./ActX/ActX/Initial Chunk/a.pdf'', ''./ActX/ActX/Overlap Chunk/a.pdf'']
         \<lparr>files = [], trace = []\<rparr>)))
     \<noteq> {c \<in> set [''./ActX/ActX/Initial Chunk/a.pdf'', ''./ActX/ActX/Overlap Chunk/a.pdf''].
          \<not> path_exists (chunk_temp_path json_script (temp_act_chunk_path clause_folders ''ActX'') c)
              \<lparr>files = ([] :: (string \<times> json_file) list), trace = []\<rparr>}"
proof -
  have calls: "calls_of (new_events \<lparr>files = [], trace = []\<rparr>
      (process_chunks json_script (\<lambda>n p. Returned (JArr [JStr p]))
         (temp_act_chunk_path clause_folders ''ActX'')
         [''./ActX/ActX/Initial Chunk/a.pdf'', ''./ActX/ActX/Overlap Chunk/a.pdf'']
         \<lparr>files = [], trace = []\<rparr>))
     = [''./ActX/ActX/Initial Chunk/a.pdf'']"
    by code_simp
  have skips: "skips_of (new_events \<lparr>files = [], trace = []\<rparr>
      (process_chunks json_script (\<lambda>n p. Returned (JArr [JStr p]))
         (temp_act_chunk_path clause_folders ''ActX'')
         [''./ActX/ActX/Initial Chunk/a.pdf'', ''./ActX/ActX/Overlap Chunk/a.pdf'']
         \<lparr>files = [], trace = []\<rparr>))
     = [''a.pdf'']"
    by code_simp
  have absent: "\<not> path_exists
         (chunk_temp_path json_script (temp_act_chunk_path clause_folders ''ActX'')
            ''./ActX/ActX/Overlap Chunk/a.pdf'')
         \<lparr>files = ([] :: (string \<times> json_file) list), trace = []\<rparr>"
    by (simp add: path_exists_def)
  have "''./ActX/ActX/Overlap Chunk/a.pdf''
      \<in> {c \<in> set [''./ActX/ActX/Initial Chunk/a.pdf'', ''./ActX/ActX/Overlap Chunk/a.pdf''].
          \<not> path_exists (chunk_temp_path json_script (temp_act_chunk_path clause_folders ''ActX'') c)
              \<lparr>files = ([] :: (string \<times> json_file) list), trace = []\<rparr>}"
    using absent by simp
  moreover have "''./ActX/ActX/Overlap Chunk/a.pdf'' \<notin> set [''./ActX/ActX/Initial Chunk/a.pdf'']"
    by simp
  ultimately have differ: "set [''./ActX/ActX/Initial Chunk/a.pdf'']
     \<noteq> {c \<in> set [''./ActX/ActX/Initial Chunk/a.pdf'', ''./ActX/ActX/Overlap Chunk/a.pdf''].
          \<not> path_exists (chunk_temp_path json_script (temp_act_chunk_path clause_folders ''ActX'') c)
              \<lparr>files = ([] :: (string \<times> json_file) list), trace = []\<rparr>}"
    by metis
  show ?thesis
    unfolding calls skips using absent differ by (intro conjI) (rule refl | assumption)+
qed

text \<open>
  Claim C6. For every chunk whose checkpoint file is present, the processor returns from
  the checkpoint test: it reports the skip and nothing else, makes no remote call, writes
  no file. After a successful run on a chunk the checkpoint is present, so a second run
  on it is such a skip.
\<close>

theorem checkpoint_skip:
  assumes "path_exists (chunk_temp_path sc temp_dir chunk_path) s"
  shows "process_chunk sc extract temp_dir chunk_path s =
           emit [Chunk_skipped (os_path_basename chunk_path)] s
       \<and> calls_of (new_events s (process_chunk sc extract temp_dir chunk_path s)) = []
       \<and> checkpoint_writes_of (new_events s (process_chunk sc extract temp_dir chunk_path s)) = []
       \<and> files (process_chunk sc extract temp_dir chunk_path s) = files s"
  using assms by (simp add: process_chunk_present)

theorem checkpoint_skip_witness:
  "path_exists (chunk_temp_path text_script ''t'' ''c/a.pdf'')
     \<lparr>files = [(''t/a.txt'', ''TEXT_A'')], trace = []\<rparr>
   \<and> process_chunk text_script (\<lambda>n p. Returned (Some ''OTHER'')) ''t'' ''c/a.pdf''
        \<lparr>files = [(''t/a.txt'', ''TEXT_A'')], trace = []\<rparr>
     = \<lparr>files = [(''t/a.txt'', ''TEXT_A'')], trace = [Chunk_skipped ''a.pdf'']\<rparr>"
  using checkpoint_skip [of text_script "''t''" "''c/a.pdf''"
      "\<lparr>files = [(''t/a.txt'', ''TEXT_A'')], trace = []\<rparr>" "\<lambda>n p. Returned (Some ''OTHER'')"]
  by (simp add: path_exists_def chunk_temp_path_def text_script_def os_path_join_def
      os_path_basename_def stem_def rfind_dot_def emit_def suffix_to_prefix)









end
